theory Spec2Isabelle
  imports Complex_Main
begin

section \<open>MindPulse scoring engine (backend/app.py)\<close>

text \<open>
  The scoring functions of \<^verbatim>\<open>backend/app.py\<close>: \<^verbatim>\<open>clamp\<close>, \<^verbatim>\<open>compute_mri\<close>,
  \<^verbatim>\<open>build_forecast\<close>, \<^verbatim>\<open>weekly_series\<close>, \<^verbatim>\<open>risk_package\<close> and the body of \<^verbatim>\<open>predict\<close>.

  Conventions of the embedding.
  \<^item> A Python \<^verbatim>\<open>float\<close> is a \<^typ>\<open>real\<close> and float arithmetic is exact arithmetic: rounding
    of binary floating point, overflow, infinities and NaN are outside the development.
  \<^item> A Python \<^verbatim>\<open>int\<close> is an \<^typ>\<open>int\<close>.
  \<^item> An exception is a value \<open>Inl e\<close> of a sum type; the first statement that raises decides
    the result.
  \<^item> The module-level generator of \<^verbatim>\<open>random\<close> is an explicit state, passed in and returned.
  \<^item> Two pieces of the Python runtime are parameters, since their code is not part of the
    repository: \<open>pf\<close>, the float-literal grammar of \<^verbatim>\<open>float(str)\<close>, and \<open>mt\<close>, the stream of
    \<^verbatim>\<open>random.random()\<close> results that follows \<^verbatim>\<open>random.seed(n)\<close>.
\<close>

subsection \<open>JSON payloads and the builtins applied to them\<close>

text \<open>What \<^verbatim>\<open>request.get_json\<close> can put under a key of the payload.\<close>

datatype pyval =
    PNone
  | PBool bool
  | PInt int
  | PFloat real
  | PStr string
  | PList "pyval list"
  | PDict "(string \<times> pyval) list"

type_synonym payload = "string \<rightharpoonup> pyval"

text \<open>
  The two exceptions the scoring code can raise. \<open>TypeError\<close> carries the type name of the
  rejected operand and \<open>ValueError\<close> the rejected string: the only data of the offending
  value that the interpreter puts into the message.
\<close>

datatype error = TypeError string | ValueError string

text \<open>Sequencing of statements that may raise.\<close>

definition and_then :: "error + 'a \<Rightarrow> ('a \<Rightarrow> error + 'b) \<Rightarrow> error + 'b" where
  "and_then r f = (case r of Inl e \<Rightarrow> Inl e | Inr v \<Rightarrow> f v)"

text \<open>\<^verbatim>\<open>payload.get(key, default)\<close>: the default only replaces an absent key.\<close>

definition dict_get :: "payload \<Rightarrow> string \<Rightarrow> pyval \<Rightarrow> pyval" where
  "dict_get payload key dflt = (case payload key of None \<Rightarrow> dflt | Some v \<Rightarrow> v)"

text \<open>\<^verbatim>\<open>float(v)\<close>.\<close>

fun py_float :: "(string \<Rightarrow> real option) \<Rightarrow> pyval \<Rightarrow> error + real" where
  "py_float pf PNone = Inl (TypeError ''NoneType'')"
| "py_float pf (PBool b) = Inr (if b then 1 else 0)"
| "py_float pf (PInt i) = Inr (of_int i)"
| "py_float pf (PFloat r) = Inr r"
| "py_float pf (PStr s) = (case pf s of None \<Rightarrow> Inl (ValueError s) | Some r \<Rightarrow> Inr r)"
| "py_float pf (PList xs) = Inl (TypeError ''list'')"
| "py_float pf (PDict kvs) = Inl (TypeError ''dict'')"

text \<open>The value of \<open>v\<close> as the right operand of \<^verbatim>\<open>+\<close> after a number.\<close>

fun py_num :: "pyval \<Rightarrow> error + real" where
  "py_num PNone = Inl (TypeError ''NoneType'')"
| "py_num (PBool b) = Inr (if b then 1 else 0)"
| "py_num (PInt i) = Inr (of_int i)"
| "py_num (PFloat r) = Inr r"
| "py_num (PStr s) = Inl (TypeError ''str'')"
| "py_num (PList xs) = Inl (TypeError ''list'')"
| "py_num (PDict kvs) = Inl (TypeError ''dict'')"

text \<open>\<^verbatim>\<open>int(x)\<close> on a float: truncation towards zero.\<close>

definition py_int :: "real \<Rightarrow> int" where
  "py_int x = (if 0 \<le> x then \<lfloor>x\<rfloor> else \<lceil>x\<rceil>)"

text \<open>\<^verbatim>\<open>round(x)\<close> on a float: the nearest integer, a tie going to the even one.\<close>

definition py_round :: "real \<Rightarrow> int" where
  "py_round x =
     (let f = \<lfloor>x\<rfloor>; r = x - of_int f in
      if r < 1 / 2 then f
      else if 1 / 2 < r then f + 1
      else if even f then f else f + 1)"

text \<open>\<^verbatim>\<open>round(x, 2)\<close>.\<close>

definition py_round2 :: "real \<Rightarrow> real" where
  "py_round2 x = of_int (py_round (x * 100)) / 100"

subsection \<open>clamp\<close>

text \<open>
  \<^verbatim>\<open>max(low, min(high, value))\<close>; the source applies it to an \<^verbatim>\<open>int\<close> in \<^verbatim>\<open>compute_mri\<close> and
  to floats elsewhere. The defaults \<open>low = 0\<close>, \<open>high = 100\<close> are written out at each call.
\<close>

definition clamp :: "'a::linorder \<Rightarrow> 'a \<Rightarrow> 'a \<Rightarrow> 'a" where
  "clamp v low high = max low (min high v)"

subsection \<open>compute\_mri\<close>

text \<open>The local variables of \<^verbatim>\<open>compute_mri\<close> after line 51.\<close>

record metrics =
  m_sleep :: real
  m_switching :: real
  m_stress :: real
  m_workload :: real
  m_hrv :: real
  m_deep_work :: real
  m_deep_work_hours :: real
  m_context_switching :: real
  m_context_hours :: real
  m_recovery_breaks :: real
  m_recovery_hours :: real
  m_overload_hours :: real
  m_overload_hours_count :: real

text \<open>
  Lines 39 to 51: the thirteen local variables, read in this order; field \<open>m_sleep\<close> is the
  local variable \<^verbatim>\<open>sleep\<close>, and so on.
\<close>

definition extract_metrics :: "(string \<Rightarrow> real option) \<Rightarrow> payload \<Rightarrow> error + metrics" where
  "extract_metrics pf payload =
     and_then (py_float pf (dict_get payload ''sleep'' (PInt 5))) (\<lambda>v1.
     and_then (py_float pf (dict_get payload ''switching'' (PInt 5))) (\<lambda>v2.
     and_then (py_float pf (dict_get payload ''stress'' (PInt 5))) (\<lambda>v3.
     and_then (py_float pf (dict_get payload ''workload'' (PInt 5))) (\<lambda>v4.
     and_then (py_float pf (dict_get payload ''hrv'' (PInt 5))) (\<lambda>v5.
     and_then (py_float pf (dict_get payload ''deep_work'' (PInt 50))) (\<lambda>v6.
     and_then (py_float pf (dict_get payload ''deep_work_hours'' (PInt 4))) (\<lambda>v7.
     and_then (py_float pf (dict_get payload ''context_switching'' (PInt 50))) (\<lambda>v8.
     and_then (py_float pf (dict_get payload ''context_hours'' (PInt 3))) (\<lambda>v9.
     and_then (py_float pf (dict_get payload ''recovery_breaks'' (PInt 40))) (\<lambda>v10.
     and_then (py_float pf (dict_get payload ''recovery_hours'' (PInt 2))) (\<lambda>v11.
     and_then (py_float pf (dict_get payload ''overload_hours'' (PInt 50))) (\<lambda>v12.
     and_then (py_float pf (dict_get payload ''overload_hours_count'' (PInt 4))) (\<lambda>v13.
     Inr \<lparr>m_sleep = v1, m_switching = v2, m_stress = v3, m_workload = v4, m_hrv = v5,
          m_deep_work = v6, m_deep_work_hours = v7, m_context_switching = v8,
          m_context_hours = v9, m_recovery_breaks = v10, m_recovery_hours = v11,
          m_overload_hours = v12, m_overload_hours_count = v13\<rparr>)))))))))))))"

text \<open>Lines 53 to 57: the running \<^verbatim>\<open>score\<close>, one binding for each assignment.\<close>

definition mri_score :: "metrics \<Rightarrow> real" where
  "mri_score m =
     (let score0 = 100 - (m_switching m * 4 + m_stress m * 5 + m_workload m * 4)
                       + (m_sleep m * 5 + m_hrv m * 3);
          score1 = score0 + (m_deep_work m * 0.1 + m_deep_work_hours m * 1.5);
          score2 = score1 - (m_context_switching m * 0.15 + m_context_hours m * 2.0);
          score3 = score2 + (m_recovery_breaks m * 0.12 + m_recovery_hours m * 2.0);
          score4 = score3 - (m_overload_hours m * 0.2 + m_overload_hours_count m * 2.5)
      in score4)"

text \<open>Line 58: \<^verbatim>\<open>int(clamp(round(score)))\<close>; \<^verbatim>\<open>round\<close> gives an \<^verbatim>\<open>int\<close> and \<^verbatim>\<open>int\<close> keeps it.\<close>

definition compute_mri :: "(string \<Rightarrow> real option) \<Rightarrow> payload \<Rightarrow> error + int" where
  "compute_mri pf payload =
     and_then (extract_metrics pf payload) (\<lambda>m. Inr (clamp (py_round (mri_score m)) 0 100))"

subsection \<open>risk\_package\<close>

record risk_tier =
  label :: string
  level :: string
  pill :: string
  forecast_label :: string
  coach_tip :: string
  recovery_now :: string

text \<open>
  The three dictionaries of the source. The coloured circle that starts each \<^verbatim>\<open>pill\<close> is
  given by the four bytes of its UTF-8 encoding.
\<close>

definition healthy_tier :: risk_tier where
  "healthy_tier =
     \<lparr>label = ''Healthy'',
      level = ''healthy'',
      pill = [CHR 0xF0, CHR 0x9F, CHR 0x9F, CHR 0xA2] @ '' Healthy'',
      forecast_label = ''Low Risk'',
      coach_tip = ''You can push, but keep a 12-minute reset break every 2 hours.'',
      recovery_now = ''Hydration + light stretching recommended now.''\<rparr>"

definition at_risk_tier :: risk_tier where
  "at_risk_tier =
     \<lparr>label = ''At Risk'',
      level = ''at-risk'',
      pill = [CHR 0xF0, CHR 0x9F, CHR 0x9F, CHR 0xA1] @ '' At Risk'',
      forecast_label = ''Elevated Risk'',
      coach_tip = ''You need a 17-minute low-stimulus break. Avoid decision-heavy tasks after 6 PM today.'',
      recovery_now = ''Step away from screens for 8 minutes and take 10 slow breaths.''\<rparr>"

definition danger_tier :: risk_tier where
  "danger_tier =
     \<lparr>label = ''Burnout Incoming'',
      level = ''danger'',
      pill = [CHR 0xF0, CHR 0x9F, CHR 0x94, CHR 0xB4] @ '' Burnout Incoming'',
      forecast_label = ''High Risk'',
      coach_tip = ''Block 45 minutes for recovery, reduce workload intensity, and delay complex tasks.'',
      recovery_now = ''Power nap suggestion: 18 minutes with a quiet timer.''\<rparr>"

definition risk_package :: "int \<Rightarrow> risk_tier" where
  "risk_package mri =
     (if mri \<ge> 75 then healthy_tier
      else if mri \<ge> 55 then at_risk_tier
      else danger_tier)"

subsection \<open>The module-level random generator\<close>

text \<open>
  The state of the generator is the stream of the results of the \<^verbatim>\<open>random.random()\<close> calls
  still to come, each in \<open>[0, 1)\<close>. \<^verbatim>\<open>random.seed(n)\<close> replaces the state by \<open>mt n\<close>, whatever
  it was; \<^verbatim>\<open>random.uniform(a, b)\<close> is \<^verbatim>\<open>a + (b - a) * random()\<close>.
\<close>

type_synonym rng = "nat \<Rightarrow> real"

definition random_seed :: "(int \<Rightarrow> rng) \<Rightarrow> int \<Rightarrow> rng \<Rightarrow> rng" where
  "random_seed mt n g = mt n"

definition random_random :: "rng \<Rightarrow> real \<times> rng" where
  "random_random g = (g 0, \<lambda>i. g (Suc i))"

definition random_uniform :: "real \<Rightarrow> real \<Rightarrow> rng \<Rightarrow> real \<times> rng" where
  "random_uniform a b g = (case random_random g of (u, g') \<Rightarrow> (a + (b - a) * u, g'))"

subsection \<open>build\_forecast\<close>

text \<open>The body of the loop, for the days still to do, on the list built so far.\<close>

fun forecast_loop ::
  "real \<Rightarrow> real \<Rightarrow> real \<Rightarrow> real \<Rightarrow> nat list \<Rightarrow> int list \<Rightarrow> rng \<Rightarrow> int list \<times> rng" where
  "forecast_loop base context_switching recovery_breaks overload_hours [] forecast g =
     (forecast, g)"
| "forecast_loop base context_switching recovery_breaks overload_hours (day # days) forecast g =
     (case random_uniform (- 4) 4 g of (jitter, g') \<Rightarrow>
        let adjust = context_switching * 0.08 + overload_hours * 0.1 - recovery_breaks * 0.06
        in forecast_loop base context_switching recovery_breaks overload_hours days
             (forecast @ [py_int (clamp (base + of_nat day * 3 + jitter + adjust) 0 100)]) g')"

definition build_forecast ::
  "(int \<Rightarrow> rng) \<Rightarrow> real \<Rightarrow> int \<Rightarrow> real \<Rightarrow> real \<Rightarrow> real \<Rightarrow> rng \<Rightarrow> int list \<times> rng" where
  "build_forecast mt base seed context_switching recovery_breaks overload_hours g =
     forecast_loop base context_switching recovery_breaks overload_hours [0..<7] []
       (random_seed mt seed g)"

subsection \<open>weekly\_series\<close>

record weekly =
  w_labels :: "string list"
  w_mri :: "int list"
  w_load :: "int list"

text \<open>
  The body of the loop over \<^verbatim>\<open>labels\<close>. The argument of the second \<^verbatim>\<open>clamp\<close> is evaluated
  left to right, so its \<^verbatim>\<open>random.uniform(-5, 5)\<close> is drawn after \<^verbatim>\<open>drift\<close>.
\<close>

fun weekly_loop ::
  "int \<Rightarrow> real \<Rightarrow> real \<Rightarrow> real \<Rightarrow> real \<Rightarrow> string list \<Rightarrow> int list \<Rightarrow> int list \<Rightarrow> rng
     \<Rightarrow> (int list \<times> int list) \<times> rng" where
  "weekly_loop mri deep_work context_switching recovery_breaks overload_hours []
       mri_series load_series g = ((mri_series, load_series), g)"
| "weekly_loop mri deep_work context_switching recovery_breaks overload_hours (l # ls)
       mri_series load_series g =
     (case random_uniform (- 6) 6 g of (drift, g1) \<Rightarrow>
        let day_mri = clamp (of_int mri + drift + deep_work * 0.04 - context_switching * 0.05
                              + recovery_breaks * 0.03 - overload_hours * 0.06) 0 100;
            mri_series1 = mri_series @ [py_int day_mri]
        in case random_uniform (- 5) 5 g1 of (jit, g2) \<Rightarrow>
             weekly_loop mri deep_work context_switching recovery_breaks overload_hours ls
               mri_series1
               (load_series @ [py_int (clamp (100 - day_mri + overload_hours * 0.2
                                 + context_switching * 0.15 - recovery_breaks * 0.1 + jit) 0 100)])
               g2)"

definition weekly_series ::
  "(int \<Rightarrow> rng) \<Rightarrow> int \<Rightarrow> int \<Rightarrow> real \<Rightarrow> real \<Rightarrow> real \<Rightarrow> real \<Rightarrow> rng \<Rightarrow> weekly \<times> rng" where
  "weekly_series mt mri seed deep_work context_switching recovery_breaks overload_hours g =
     (let labels = [''Mon'', ''Tue'', ''Wed'', ''Thu'', ''Fri'', ''Sat'', ''Sun''] in
      case weekly_loop mri deep_work context_switching recovery_breaks overload_hours labels
             [] [] (random_seed mt seed g) of
        ((mri_series, load_series), g') \<Rightarrow>
          (\<lparr>w_labels = labels, w_mri = mri_series, w_load = load_series\<rparr>, g'))"

subsection \<open>predict\<close>

text \<open>The local variables of \<^verbatim>\<open>predict\<close> after line 157.\<close>

record predict_vars =
  v_mri :: int
  v_risk :: risk_tier
  v_context_switching :: real
  v_recovery_breaks :: real
  v_overload_hours :: real
  v_deep_work :: real
  v_risk_score :: real
  v_seed :: int

text \<open>
  Lines 147 to 157, on the dictionary that \<^verbatim>\<open>get_json(...) or {}\<close> gave. On line 157 the
  value under \<^verbatim>\<open>stress\<close> is added as it is, without \<^verbatim>\<open>float\<close>.
\<close>

definition predict_locals :: "(string \<Rightarrow> real option) \<Rightarrow> payload \<Rightarrow> error + predict_vars" where
  "predict_locals pf payload =
     and_then (compute_mri pf payload) (\<lambda>mri.
     let risk = risk_package mri in
     and_then (py_float pf (dict_get payload ''context_switching'' (PInt 50))) (\<lambda>context_switching.
     and_then (py_float pf (dict_get payload ''recovery_breaks'' (PInt 40))) (\<lambda>recovery_breaks.
     and_then (py_float pf (dict_get payload ''overload_hours'' (PInt 50))) (\<lambda>overload_hours.
     and_then (py_float pf (dict_get payload ''deep_work'' (PInt 50))) (\<lambda>deep_work.
     let risk_score = clamp (100 - of_int mri + context_switching * 0.12
                              + overload_hours * 0.18 - recovery_breaks * 0.1) 0 100 in
     and_then (py_num (dict_get payload ''stress'' (PInt 5))) (\<lambda>stress.
     let seed = py_int (of_int mri + risk_score + stress) in
     Inr \<lparr>v_mri = mri, v_risk = risk, v_context_switching = context_switching,
          v_recovery_breaks = recovery_breaks, v_overload_hours = overload_hours,
          v_deep_work = deep_work, v_risk_score = risk_score, v_seed = seed\<rparr>))))))"

record risk_summary =
  r_label :: string
  r_level :: string
  r_pill :: string

text \<open>The dictionary \<^verbatim>\<open>response\<close>; field \<open>resp_mri\<close> is its key \<^verbatim>\<open>mri\<close>, and so on.\<close>

record response =
  resp_mri :: int
  resp_risk :: risk_summary
  resp_forecast_label :: string
  resp_confidence :: real
  resp_forecast :: "int list"
  resp_weekly :: weekly
  resp_coach_tip :: string
  resp_recovery_now :: string

text \<open>
  Lines 158 to 171. An exception leaves the generator as it was, since both \<^verbatim>\<open>random.seed\<close>
  calls come after the last statement that can raise.
\<close>

definition predict ::
  "(string \<Rightarrow> real option) \<Rightarrow> (int \<Rightarrow> rng) \<Rightarrow> payload \<Rightarrow> rng \<Rightarrow> (error + response) \<times> rng" where
  "predict pf mt payload g =
     (case predict_locals pf payload of
        Inl e \<Rightarrow> (Inl e, g)
      | Inr v \<Rightarrow>
          (case build_forecast mt (v_risk_score v) (v_seed v) (v_context_switching v)
                  (v_recovery_breaks v) (v_overload_hours v) g of
             (forecast, g1) \<Rightarrow>
               (case weekly_series mt (v_mri v) (v_seed v + 7) (v_deep_work v)
                       (v_context_switching v) (v_recovery_breaks v) (v_overload_hours v) g1 of
                  (weekly, g2) \<Rightarrow>
                    let confidence = clamp (0.7 + (of_int (v_mri v) / 100) * 0.25) 0.7 0.95
                    in (Inr \<lparr>resp_mri = v_mri v,
                              resp_risk = \<lparr>r_label = label (v_risk v), r_level = level (v_risk v),
                                           r_pill = pill (v_risk v)\<rparr>,
                              resp_forecast_label = forecast_label (v_risk v),
                              resp_confidence = py_round2 confidence,
                              resp_forecast = forecast,
                              resp_weekly = weekly,
                              resp_coach_tip = coach_tip (v_risk v),
                              resp_recovery_now = recovery_now (v_risk v)\<rparr>, g2))))"

subsection \<open>Auxiliary definitions for the statements\<close>

text \<open>The keys and defaults of lines 39 to 51, in the order of the statements.\<close>

definition recognised :: "(string \<times> int) list" where
  "recognised =
     [(''sleep'', 5), (''switching'', 5), (''stress'', 5), (''workload'', 5), (''hrv'', 5),
      (''deep_work'', 50), (''deep_work_hours'', 4), (''context_switching'', 50),
      (''context_hours'', 3), (''recovery_breaks'', 40), (''recovery_hours'', 2),
      (''overload_hours'', 50), (''overload_hours_count'', 4)]"

text \<open>The results of the thirteen \<^verbatim>\<open>float(payload.get(key, default))\<close> calls, each on its own.\<close>

definition metric_reads :: "(string \<Rightarrow> real option) \<Rightarrow> payload \<Rightarrow> (error + real) list" where
  "metric_reads pf payload =
     map (\<lambda>(key, dflt). py_float pf (dict_get payload key (PInt dflt))) recognised"

text \<open>The exception of the first of a sequence of calls that raises, if one does.\<close>

fun first_error :: "(error + 'a) list \<Rightarrow> error option" where
  "first_error [] = None"
| "first_error (Inl e # rs) = Some e"
| "first_error (Inr v # rs) = first_error rs"

text \<open>The payload of the low-stress scenario, with the numbers as JSON integers.\<close>

definition scenario_payload :: payload where
  "scenario_payload =
     [''sleep'' \<mapsto> PInt 8, ''switching'' \<mapsto> PInt 2, ''stress'' \<mapsto> PInt 2,
      ''workload'' \<mapsto> PInt 3, ''hrv'' \<mapsto> PInt 7, ''deep_work'' \<mapsto> PInt 60,
      ''deep_work_hours'' \<mapsto> PInt 5, ''context_switching'' \<mapsto> PInt 20,
      ''context_hours'' \<mapsto> PInt 1, ''recovery_breaks'' \<mapsto> PInt 70,
      ''recovery_hours'' \<mapsto> PInt 3, ''overload_hours'' \<mapsto> PInt 10,
      ''overload_hours_count'' \<mapsto> PInt 1]"

section \<open>Properties\<close>

subsection \<open>Basic facts\<close>

lemma and_then_Inl [simp]: "and_then (Inl e) f = Inl e"
  by (simp add: and_then_def)

lemma and_then_Inr [simp]: "and_then (Inr v) f = f v"
  by (simp add: and_then_def)

lemma tiers_distinct:
  "healthy_tier \<noteq> at_risk_tier" "healthy_tier \<noteq> danger_tier" "at_risk_tier \<noteq> danger_tier"
  by (simp_all add: healthy_tier_def at_risk_tier_def danger_tier_def)

subsection \<open>The risk classifier\<close>

text \<open>
  Claim C2. For every integer \<open>mri\<close>, in or outside \<open>[0, 100]\<close>, \<open>risk_package\<close> gives the
  Healthy dictionary exactly when \<open>mri \<ge> 75\<close>, the At Risk dictionary exactly when
  \<open>55 \<le> mri < 75\<close> and the danger dictionary exactly when \<open>mri < 55\<close>. The three dictionaries
  differ, and so do their \<open>level\<close> entries, so every \<open>mri\<close> has exactly one tier.
\<close>

theorem risk_package_partition:
  "(risk_package mri = healthy_tier \<longleftrightarrow> 75 \<le> mri) \<and>
   (risk_package mri = at_risk_tier \<longleftrightarrow> 55 \<le> mri \<and> mri < 75) \<and>
   (risk_package mri = danger_tier \<longleftrightarrow> mri < 55) \<and>
   (level (risk_package mri) = ''healthy'' \<longleftrightarrow> 75 \<le> mri) \<and>
   (level (risk_package mri) = ''at-risk'' \<longleftrightarrow> 55 \<le> mri \<and> mri < 75) \<and>
   (level (risk_package mri) = ''danger'' \<longleftrightarrow> mri < 55) \<and>
   healthy_tier \<noteq> at_risk_tier \<and> healthy_tier \<noteq> danger_tier \<and> at_risk_tier \<noteq> danger_tier"
proof -
  have lv: "level healthy_tier = ''healthy''" "level at_risk_tier = ''at-risk''"
    "level danger_tier = ''danger''"
    by (simp_all add: healthy_tier_def at_risk_tier_def danger_tier_def)
  consider "75 \<le> mri" | "55 \<le> mri" "mri < 75" | "mri < 55"
    by linarith
  then show ?thesis
  proof cases
    case 1
    then show ?thesis using tiers_distinct by (simp add: risk_package_def lv)
  next
    case 2
    then show ?thesis using tiers_distinct by (simp add: risk_package_def lv)
  next
    case 3
    then show ?thesis using tiers_distinct by (simp add: risk_package_def lv)
  qed
qed

subsection \<open>Two fixed payloads\<close>

lemma extract_scenario:
  "extract_metrics pf scenario_payload =
     Inr \<lparr>m_sleep = 8, m_switching = 2, m_stress = 2, m_workload = 3, m_hrv = 7,
          m_deep_work = 60, m_deep_work_hours = 5, m_context_switching = 20,
          m_context_hours = 1, m_recovery_breaks = 70, m_recovery_hours = 3,
          m_overload_hours = 10, m_overload_hours_count = 1\<rparr>"
  by (simp add: scenario_payload_def extract_metrics_def dict_get_def)

lemma score_scenario:
  "mri_score \<lparr>m_sleep = 8, m_switching = 2, m_stress = 2, m_workload = 3, m_hrv = 7,
          m_deep_work = 60, m_deep_work_hours = 5, m_context_switching = 20,
          m_context_hours = 1, m_recovery_breaks = 70, m_recovery_hours = 3,
          m_overload_hours = 10, m_overload_hours_count = 1\<rparr> = 1494 / 10"
  by (simp add: mri_score_def Let_def)

lemma extract_empty:
  "extract_metrics pf Map.empty =
     Inr \<lparr>m_sleep = 5, m_switching = 5, m_stress = 5, m_workload = 5, m_hrv = 5,
          m_deep_work = 50, m_deep_work_hours = 4, m_context_switching = 50,
          m_context_hours = 3, m_recovery_breaks = 40, m_recovery_hours = 2,
          m_overload_hours = 50, m_overload_hours_count = 4\<rparr>"
  by (simp add: extract_metrics_def dict_get_def)

lemma score_empty:
  "mri_score \<lparr>m_sleep = 5, m_switching = 5, m_stress = 5, m_workload = 5, m_hrv = 5,
          m_deep_work = 50, m_deep_work_hours = 4, m_context_switching = 50,
          m_context_hours = 3, m_recovery_breaks = 40, m_recovery_hours = 2,
          m_overload_hours = 50, m_overload_hours_count = 4\<rparr> = 613 / 10"
  by (simp add: mri_score_def Let_def)

lemma compute_mri_empty: "compute_mri pf Map.empty = Inr 61"
  by (simp add: compute_mri_def extract_empty score_empty py_round_def clamp_def Let_def)

text \<open>
  Claim C9. On the scenario payload the score is 149.4, which rounds to 149 and is clamped
  to 100: \<open>compute_mri\<close> returns 100, which is at least 75, and \<open>risk_package\<close> gives the
  Healthy dictionary.
\<close>

theorem scenario_is_healthy:
  "compute_mri pf scenario_payload = Inr 100 \<and> (75::int) \<le> 100 \<and>
   risk_package 100 = healthy_tier \<and> label (risk_package 100) = ''Healthy''"
  by (simp add: compute_mri_def extract_scenario score_scenario py_round_def clamp_def Let_def
      risk_package_def healthy_tier_def)

text \<open>
  Claim C10. On the empty payload every metric takes its default, the score is 61.3 and
  \<open>compute_mri\<close> returns 61, which \<open>risk_package\<close> puts in the middle tier: label
  \<^verbatim>\<open>At Risk\<close>, level \<^verbatim>\<open>at-risk\<close>.
\<close>

theorem empty_payload_baseline:
  "extract_metrics pf Map.empty =
     Inr \<lparr>m_sleep = 5, m_switching = 5, m_stress = 5, m_workload = 5, m_hrv = 5,
          m_deep_work = 50, m_deep_work_hours = 4, m_context_switching = 50,
          m_context_hours = 3, m_recovery_breaks = 40, m_recovery_hours = 2,
          m_overload_hours = 50, m_overload_hours_count = 4\<rparr> \<and>
   compute_mri pf Map.empty = Inr 61 \<and>
   risk_package 61 = at_risk_tier \<and>
   label (risk_package 61) = ''At Risk'' \<and> level (risk_package 61) = ''at-risk''"
  by (simp add: extract_empty compute_mri_empty risk_package_def at_risk_tier_def)

subsection \<open>The generators\<close>

lemma py_int_floor: "0 \<le> x \<Longrightarrow> py_int x = \<lfloor>x\<rfloor>"
  by (simp add: py_int_def)

lemma py_int_clamp_bounds: "0 \<le> py_int (clamp x 0 100) \<and> py_int (clamp x 0 100) \<le> 100"
  by (auto simp: py_int_def clamp_def max_def min_def floor_le_iff le_floor_iff)

lemma upt_shift: "map g [0..<Suc n] = g 0 # map (\<lambda>i. g (Suc i)) [0..<n]"
  by (simp only: upt_rec[of 0 "Suc n"] map_Suc_upt[symmetric]) (simp add: comp_def)

lemma upt7: "[0..<7] = [0, 1, 2, 3, 4, 5, 6::nat]"
  by (simp add: upt_rec)

lemma map2_upt: "map2 F [0..<n] (map g [0..<n]) = map (\<lambda>d. F d (g d)) [0..<n]"
  by (simp add: list_eq_iff_nth_eq)

lemma uniform_draw: "fst (random_uniform a b g) = a + (b - a) * g 0"
  by (simp add: random_uniform_def random_random_def)

lemma uniform_range:
  assumes "0 \<le> g 0" "g 0 < 1" "a \<le> b"
  shows "a \<le> fst (random_uniform a b g) \<and> fst (random_uniform a b g) \<le> b"
proof -
  have "0 \<le> (b - a) * g 0" using assms by simp
  moreover have "(b - a) * g 0 \<le> (b - a) * 1"
    using assms by (intro mult_left_mono) simp_all
  ultimately show ?thesis by (simp add: uniform_draw)
qed

lemma forecast_loop_eq:
  "forecast_loop base cs rb oh days acc g =
     (acc @ map2 (\<lambda>day u. py_int (clamp (base + of_nat day * 3 + (- 4 + 8 * u)
                                      + (cs * 0.08 + oh * 0.1 - rb * 0.06)) 0 100))
              days (map g [0..<length days]),
      \<lambda>i. g (i + length days))"
proof (induction days arbitrary: acc g)
  case Nil
  show ?case by simp
next
  case (Cons d ds)
  show ?case
    by (simp only: length_Cons upt_shift)
       (simp add: Cons.IH random_uniform_def random_random_def Let_def)
qed

lemma build_forecast_eq:
  "build_forecast mt base seed cs rb oh g =
     (map (\<lambda>d. py_int (clamp (base + of_nat d * 3 + (- 4 + 8 * mt seed d)
                            + (cs * 0.08 + oh * 0.1 - rb * 0.06)) 0 100)) [0..<7],
      \<lambda>i. mt seed (i + 7))"
  using map2_upt[of _ 7 "mt seed"]
  by (simp add: build_forecast_def forecast_loop_eq random_seed_def)

lemma weekly_loop_eq:
  "weekly_loop mri dw cs rb oh ls ms lds g =
     ((ms @ map (\<lambda>d. py_int (clamp (of_int mri + (- 6 + 12 * g (2 * d)) + dw * 0.04 - cs * 0.05
                                + rb * 0.03 - oh * 0.06) 0 100)) [0..<length ls],
       lds @ map (\<lambda>d. py_int (clamp (100 - clamp (of_int mri + (- 6 + 12 * g (2 * d)) + dw * 0.04
                                - cs * 0.05 + rb * 0.03 - oh * 0.06) 0 100
                                + oh * 0.2 + cs * 0.15 - rb * 0.1 + (- 5 + 10 * g (2 * d + 1))) 0 100))
               [0..<length ls]),
      \<lambda>i. g (i + 2 * length ls))"
proof (induction ls arbitrary: ms lds g)
  case Nil
  show ?case by simp
next
  case (Cons l ls)
  show ?case
    by (simp only: length_Cons upt_shift)
       (simp add: Cons.IH random_uniform_def random_random_def Let_def)
qed

lemma weekly_series_eq:
  "weekly_series mt mri seed dw cs rb oh g =
     (\<lparr>w_labels = [''Mon'', ''Tue'', ''Wed'', ''Thu'', ''Fri'', ''Sat'', ''Sun''],
       w_mri = map (\<lambda>d. py_int (clamp (of_int mri + (- 6 + 12 * mt seed (2 * d)) + dw * 0.04
                 - cs * 0.05 + rb * 0.03 - oh * 0.06) 0 100)) [0..<7],
       w_load = map (\<lambda>d. py_int (clamp (100 - clamp (of_int mri + (- 6 + 12 * mt seed (2 * d))
                 + dw * 0.04 - cs * 0.05 + rb * 0.03 - oh * 0.06) 0 100
                 + oh * 0.2 + cs * 0.15 - rb * 0.1 + (- 5 + 10 * mt seed (2 * d + 1))) 0 100))
                 [0..<7]\<rparr>,
      \<lambda>i. mt seed (i + 14))"
  by (simp add: weekly_series_def weekly_loop_eq random_seed_def Let_def upt7)

text \<open>
  Claim C3. Whatever the base, the seed, the three metric values and the state of the
  generator before the call, \<open>build_forecast\<close> returns a list of 7 integers. With \<open>jitter d\<close>
  the draw \<^verbatim>\<open>random.uniform(-4, 4)\<close> number \<open>d\<close> after \<^verbatim>\<open>random.seed(seed)\<close>, which lies in
  \<open>[-4, 4]\<close> when the generator yields values of \<open>[0, 1)\<close>, and \<open>adjust\<close> the same for every
  day, element \<open>d\<close> is \<open>clamp (base + d * 3 + jitter d + adjust)\<close> truncated, which here is
  its floor, and lies in \<open>[0, 100]\<close>. The function has no statement that raises.
\<close>

theorem build_forecast_spec:
  assumes unit: "\<forall>i. 0 \<le> mt seed i \<and> mt seed i < 1"
  shows
    "(let jitter = (\<lambda>d. fst (random_uniform (- 4) 4 (\<lambda>i. mt seed (d + i))));
          adjust = context_switching * 0.08 + overload_hours * 0.1 - recovery_breaks * 0.06;
          forecast = fst (build_forecast mt base seed context_switching recovery_breaks
                            overload_hours g)
      in length forecast = 7 \<and>
         (\<forall>d<7. - 4 \<le> jitter d \<and> jitter d \<le> 4 \<and>
            forecast ! d = py_int (clamp (base + of_nat d * 3 + jitter d + adjust) 0 100) \<and>
            forecast ! d = \<lfloor>clamp (base + of_nat d * 3 + jitter d + adjust) 0 100\<rfloor> \<and>
            0 \<le> forecast ! d \<and> forecast ! d \<le> 100))"
proof -
  have r: "- 4 \<le> fst (random_uniform (- 4) 4 (\<lambda>i. mt seed (d + i))) \<and>
           fst (random_uniform (- 4) 4 (\<lambda>i. mt seed (d + i))) \<le> 4" for d
    using unit by (intro uniform_range) simp_all
  have c: "0 \<le> clamp x 0 100" for x :: real
    by (simp add: clamp_def)
  show ?thesis
    unfolding Let_def build_forecast_eq fst_conv
    using r py_int_clamp_bounds py_int_floor[OF c]
    by (simp add: uniform_draw)
qed

theorem build_forecast_spec_witness:
  "(\<forall>i::nat. (0::real) \<le> 1 / 2 \<and> (1 / 2 :: real) < 1) \<and>
   length (fst (build_forecast (\<lambda>s i. 1 / 2) 50 116 50 40 50 (\<lambda>i. 0))) = 7 \<and>
   fst (build_forecast (\<lambda>s i. 1 / 2) 50 116 50 40 50 (\<lambda>i. 0)) ! 3 = 65"
proof -
  have u: "\<forall>i::nat. 0 \<le> (\<lambda>(s::int) (i::nat). 1 / 2 :: real) 116 i \<and>
             (\<lambda>(s::int) (i::nat). 1 / 2 :: real) 116 i < 1"
    by simp
  note t = build_forecast_spec[where mt = "\<lambda>s i. 1 / 2" and seed = 116 and base = 50
      and context_switching = 50 and recovery_breaks = 40 and overload_hours = 50
      and g = "\<lambda>i. 0", OF u, unfolded Let_def]
  from t have len: "length (fst (build_forecast (\<lambda>s i. 1 / 2) 50 116 50 40 50 (\<lambda>i. 0))) = 7"
    by (rule conjunct1)
  from t have "\<forall>d<7. fst (build_forecast (\<lambda>s i. 1 / 2) 50 116 50 40 50 (\<lambda>i. 0)) ! d =
      py_int (clamp (50 + of_nat d * 3 + fst (random_uniform (- 4) 4 (\<lambda>i. 1 / 2))
                + (50 * 0.08 + 50 * 0.1 - 40 * 0.06)) 0 100)"
    by simp
  then have "fst (build_forecast (\<lambda>s i. 1 / 2) 50 116 50 40 50 (\<lambda>i. 0)) ! 3 =
      py_int (clamp (50 + of_nat 3 * 3 + fst (random_uniform (- 4) 4 (\<lambda>i. 1 / 2))
                + (50 * 0.08 + 50 * 0.1 - 40 * 0.06)) 0 100)"
    by simp
  then have "fst (build_forecast (\<lambda>s i. 1 / 2) 50 116 50 40 50 (\<lambda>i. 0)) ! 3 = 65"
    by (simp add: uniform_draw clamp_def py_int_def)
  with len show ?thesis by simp
qed

text \<open>
  Claim C4. \<open>weekly_series\<close> returns the labels Mon to Sun and two lists of 7 integers of
  \<open>[0, 100]\<close>. On day \<open>d\<close> the draw number \<open>2 * d\<close> after seeding is the drift, in
  \<open>[-6, 6]\<close>, and the draw number \<open>2 * d + 1\<close> is the second draw, in \<open>[-5, 5]\<close>; the index
  entry is the truncation of the clamped \<open>day_index\<close>, and the load entry is computed from
  the clamped \<open>day_index\<close> before truncation.
\<close>

theorem weekly_series_spec:
  assumes unit: "\<forall>i. 0 \<le> mt seed i \<and> mt seed i < 1"
  shows
    "(let drift = (\<lambda>d. fst (random_uniform (- 6) 6 (\<lambda>i. mt seed (2 * d + i))));
          second_draw = (\<lambda>d. fst (random_uniform (- 5) 5 (\<lambda>i. mt seed (2 * d + 1 + i))));
          day_index = (\<lambda>d. clamp (of_int mri + drift d + deep_work * 0.04
                          - context_switching * 0.05 + recovery_breaks * 0.03
                          - overload_hours * 0.06) 0 100);
          day_load = (\<lambda>d. clamp (100 - day_index d + overload_hours * 0.2
                          + context_switching * 0.15 - recovery_breaks * 0.1 + second_draw d)
                          0 100);
          weekly = fst (weekly_series mt mri seed deep_work context_switching recovery_breaks
                          overload_hours g)
      in w_labels weekly = [''Mon'', ''Tue'', ''Wed'', ''Thu'', ''Fri'', ''Sat'', ''Sun''] \<and>
         length (w_mri weekly) = 7 \<and> length (w_load weekly) = 7 \<and>
         (\<forall>d<7. - 6 \<le> drift d \<and> drift d \<le> 6 \<and> - 5 \<le> second_draw d \<and> second_draw d \<le> 5 \<and>
            w_mri weekly ! d = py_int (day_index d) \<and>
            w_load weekly ! d = py_int (day_load d) \<and>
            0 \<le> w_mri weekly ! d \<and> w_mri weekly ! d \<le> 100 \<and>
            0 \<le> w_load weekly ! d \<and> w_load weekly ! d \<le> 100))"
proof -
  have r6: "- 6 \<le> fst (random_uniform (- 6) 6 (\<lambda>i. mt seed (2 * d + i))) \<and>
            fst (random_uniform (- 6) 6 (\<lambda>i. mt seed (2 * d + i))) \<le> 6" for d
    using unit by (intro uniform_range) simp_all
  have r5: "- 5 \<le> fst (random_uniform (- 5) 5 (\<lambda>i. mt seed (2 * d + 1 + i))) \<and>
            fst (random_uniform (- 5) 5 (\<lambda>i. mt seed (2 * d + 1 + i))) \<le> 5" for d
    using unit by (intro uniform_range) simp_all
  show ?thesis
    unfolding Let_def weekly_series_eq fst_conv
    using r6 r5 py_int_clamp_bounds
    by (simp add: uniform_draw)
qed

theorem weekly_series_spec_witness:
  "(\<forall>i::nat. (0::real) \<le> 1 / 2 \<and> (1 / 2 :: real) < 1) \<and>
   w_labels (fst (weekly_series (\<lambda>s i. 1 / 2) 61 123 50 50 40 50 (\<lambda>i. 0))) =
     [''Mon'', ''Tue'', ''Wed'', ''Thu'', ''Fri'', ''Sat'', ''Sun''] \<and>
   w_mri (fst (weekly_series (\<lambda>s i. 1 / 2) 61 123 50 50 40 50 (\<lambda>i. 0))) ! 3 = 58 \<and>
   w_load (fst (weekly_series (\<lambda>s i. 1 / 2) 61 123 50 50 40 50 (\<lambda>i. 0))) ! 3 = 54"
proof -
  have u: "\<forall>i::nat. 0 \<le> (\<lambda>(s::int) (i::nat). 1 / 2 :: real) 123 i \<and>
             (\<lambda>(s::int) (i::nat). 1 / 2 :: real) 123 i < 1"
    by simp
  note t = weekly_series_spec[where mt = "\<lambda>s i. 1 / 2" and seed = 123 and mri = 61
      and deep_work = 50 and context_switching = 50 and recovery_breaks = 40
      and overload_hours = 50 and g = "\<lambda>i. 0", OF u, unfolded Let_def]
  from t have lab: "w_labels (fst (weekly_series (\<lambda>s i. 1 / 2) 61 123 50 50 40 50 (\<lambda>i. 0))) =
     [''Mon'', ''Tue'', ''Wed'', ''Thu'', ''Fri'', ''Sat'', ''Sun'']"
    by (rule conjunct1)
  from t have "\<forall>d<7.
      w_mri (fst (weekly_series (\<lambda>s i. 1 / 2) 61 123 50 50 40 50 (\<lambda>i. 0))) ! d =
        py_int (clamp (of_int 61 + fst (random_uniform (- 6) 6 (\<lambda>i. 1 / 2)) + 50 * 0.04
                   - 50 * 0.05 + 40 * 0.03 - 50 * 0.06) 0 100) \<and>
      w_load (fst (weekly_series (\<lambda>s i. 1 / 2) 61 123 50 50 40 50 (\<lambda>i. 0))) ! d =
        py_int (clamp (100 - clamp (of_int 61 + fst (random_uniform (- 6) 6 (\<lambda>i. 1 / 2))
                   + 50 * 0.04 - 50 * 0.05 + 40 * 0.03 - 50 * 0.06) 0 100
                   + 50 * 0.2 + 50 * 0.15 - 40 * 0.1
                   + fst (random_uniform (- 5) 5 (\<lambda>i. 1 / 2))) 0 100)"
    by simp
  then have "w_mri (fst (weekly_series (\<lambda>s i. 1 / 2) 61 123 50 50 40 50 (\<lambda>i. 0))) ! 3 =
        py_int (clamp (of_int 61 + fst (random_uniform (- 6) 6 (\<lambda>i. 1 / 2)) + 50 * 0.04
                   - 50 * 0.05 + 40 * 0.03 - 50 * 0.06) 0 100) \<and>
      w_load (fst (weekly_series (\<lambda>s i. 1 / 2) 61 123 50 50 40 50 (\<lambda>i. 0))) ! 3 =
        py_int (clamp (100 - clamp (of_int 61 + fst (random_uniform (- 6) 6 (\<lambda>i. 1 / 2))
                   + 50 * 0.04 - 50 * 0.05 + 40 * 0.03 - 50 * 0.06) 0 100
                   + 50 * 0.2 + 50 * 0.15 - 40 * 0.1
                   + fst (random_uniform (- 5) 5 (\<lambda>i. 1 / 2))) 0 100)"
    by simp
  then have "w_mri (fst (weekly_series (\<lambda>s i. 1 / 2) 61 123 50 50 40 50 (\<lambda>i. 0))) ! 3 = 58 \<and>
      w_load (fst (weekly_series (\<lambda>s i. 1 / 2) 61 123 50 50 40 50 (\<lambda>i. 0))) ! 3 = 54"
    by (simp add: uniform_draw clamp_def py_int_def)
  with lab show ?thesis by simp
qed

text \<open>
  Claim C5. The results of \<open>build_forecast\<close>, of \<open>weekly_series\<close> and of \<open>predict\<close> do not depend
  on the state \<open>g1\<close> or \<open>g2\<close> in which the module-level generator is found: two calls with
  the same arguments return the same lists, and two runs of \<open>predict\<close> on the same payload
  return the same response or raise the same exception.
\<close>

theorem determinism:
  "fst (build_forecast mt base seed context_switching recovery_breaks overload_hours g1) =
   fst (build_forecast mt base seed context_switching recovery_breaks overload_hours g2) \<and>
   fst (weekly_series mt mri seed deep_work context_switching recovery_breaks overload_hours g1) =
   fst (weekly_series mt mri seed deep_work context_switching recovery_breaks overload_hours g2) \<and>
   fst (predict pf mt payload g1) = fst (predict pf mt payload g2)"
  by (simp add: predict_def build_forecast_eq weekly_series_eq Let_def split: sum.split)

subsection \<open>Extraction of the metrics\<close>

lemma and_then_eq_Inr: "and_then r f = Inr y \<longleftrightarrow> (\<exists>v. r = Inr v \<and> f v = Inr y)"
  by (cases r) simp_all

lemma and_then_13:
  fixes a1 a2 a3 a4 a5 a6 a7 a8 a9 a10 a11 a12 a13 :: "error + real"
  shows
  "and_then a1 (\<lambda>v1. and_then a2 (\<lambda>v2. and_then a3 (\<lambda>v3. and_then a4 (\<lambda>v4.
   and_then a5 (\<lambda>v5. and_then a6 (\<lambda>v6. and_then a7 (\<lambda>v7. and_then a8 (\<lambda>v8.
   and_then a9 (\<lambda>v9. and_then a10 (\<lambda>v10. and_then a11 (\<lambda>v11. and_then a12 (\<lambda>v12.
   and_then a13 (\<lambda>v13. Inr (F v1 v2 v3 v4 v5 v6 v7 v8 v9 v10 v11 v12 v13)))))))))))))) =
   (case first_error [a1, a2, a3, a4, a5, a6, a7, a8, a9, a10, a11, a12, a13] of
      Some e \<Rightarrow> Inl e
    | None \<Rightarrow> Inr (F (projr a1) (projr a2) (projr a3) (projr a4) (projr a5) (projr a6)
                    (projr a7) (projr a8) (projr a9) (projr a10) (projr a11) (projr a12)
                    (projr a13)))"
  apply (cases a1; simp)
  apply (cases a2; simp)
  apply (cases a3; simp)
  apply (cases a4; simp)
  apply (cases a5; simp)
  apply (cases a6; simp)
  apply (cases a7; simp)
  apply (cases a8; simp)
  apply (cases a9; simp)
  apply (cases a10; simp)
  apply (cases a11; simp)
  apply (cases a12; simp)
  apply (cases a13; simp)
  done

lemma metric_reads_unfold:
  "metric_reads pf payload =
     [py_float pf (dict_get payload ''sleep'' (PInt 5)),
      py_float pf (dict_get payload ''switching'' (PInt 5)),
      py_float pf (dict_get payload ''stress'' (PInt 5)),
      py_float pf (dict_get payload ''workload'' (PInt 5)),
      py_float pf (dict_get payload ''hrv'' (PInt 5)),
      py_float pf (dict_get payload ''deep_work'' (PInt 50)),
      py_float pf (dict_get payload ''deep_work_hours'' (PInt 4)),
      py_float pf (dict_get payload ''context_switching'' (PInt 50)),
      py_float pf (dict_get payload ''context_hours'' (PInt 3)),
      py_float pf (dict_get payload ''recovery_breaks'' (PInt 40)),
      py_float pf (dict_get payload ''recovery_hours'' (PInt 2)),
      py_float pf (dict_get payload ''overload_hours'' (PInt 50)),
      py_float pf (dict_get payload ''overload_hours_count'' (PInt 4))]"
  unfolding metric_reads_def recognised_def by (simp only: list.map prod.case)

lemma extract_metrics_first_error:
  "extract_metrics pf payload =
     (case first_error (metric_reads pf payload) of
        Some e \<Rightarrow> Inl e
      | None \<Rightarrow>
          Inr \<lparr>m_sleep = projr (py_float pf (dict_get payload ''sleep'' (PInt 5))),
               m_switching = projr (py_float pf (dict_get payload ''switching'' (PInt 5))),
               m_stress = projr (py_float pf (dict_get payload ''stress'' (PInt 5))),
               m_workload = projr (py_float pf (dict_get payload ''workload'' (PInt 5))),
               m_hrv = projr (py_float pf (dict_get payload ''hrv'' (PInt 5))),
               m_deep_work = projr (py_float pf (dict_get payload ''deep_work'' (PInt 50))),
               m_deep_work_hours =
                 projr (py_float pf (dict_get payload ''deep_work_hours'' (PInt 4))),
               m_context_switching =
                 projr (py_float pf (dict_get payload ''context_switching'' (PInt 50))),
               m_context_hours = projr (py_float pf (dict_get payload ''context_hours'' (PInt 3))),
               m_recovery_breaks =
                 projr (py_float pf (dict_get payload ''recovery_breaks'' (PInt 40))),
               m_recovery_hours =
                 projr (py_float pf (dict_get payload ''recovery_hours'' (PInt 2))),
               m_overload_hours =
                 projr (py_float pf (dict_get payload ''overload_hours'' (PInt 50))),
               m_overload_hours_count =
                 projr (py_float pf (dict_get payload ''overload_hours_count'' (PInt 4)))\<rparr>)"
  unfolding extract_metrics_def metric_reads_unfold by (rule and_then_13)

lemma first_error_None: "first_error rs = None \<longleftrightarrow> (\<forall>r\<in>set rs. \<not> isl r)"
  by (induction rs rule: first_error.induct) auto

lemma first_error_index:
  "first_error rs = Some e \<Longrightarrow>
     \<exists>i<length rs. rs ! i = Inl e \<and> (\<forall>j<i. \<not> isl (rs ! j))"
proof (induction rs rule: first_error.induct)
  case 1
  then show ?case by simp
next
  case (2 e' rs)
  then show ?case by auto
next
  case (3 v rs)
  then obtain i where i: "i < length rs" "rs ! i = Inl e" "\<forall>j<i. \<not> isl (rs ! j)"
    by auto
  have "\<forall>j<Suc i. \<not> isl ((Inr v # rs) ! j)"
    using i(3) by (auto simp: nth_Cons split: nat.splits)
  with i(1,2) show ?case
    by (intro exI[of _ "Suc i"]) simp
qed

lemma read_raises_present:
  "py_float pf (dict_get payload key (PInt dflt)) = Inl e \<Longrightarrow>
     \<exists>v. payload key = Some v \<and> py_float pf v = Inl e"
  by (cases "payload key") (simp_all add: dict_get_def)

lemma extract_metrics_reads:
  assumes "extract_metrics pf payload = Inr m"
  shows "py_float pf (dict_get payload ''context_switching'' (PInt 50)) = Inr (m_context_switching m)"
    and "py_float pf (dict_get payload ''recovery_breaks'' (PInt 40)) = Inr (m_recovery_breaks m)"
    and "py_float pf (dict_get payload ''overload_hours'' (PInt 50)) = Inr (m_overload_hours m)"
    and "py_float pf (dict_get payload ''deep_work'' (PInt 50)) = Inr (m_deep_work m)"
proof -
  from assms have n: "first_error (metric_reads pf payload) = None"
    by (simp add: extract_metrics_first_error split: option.splits)
  then have a: "\<forall>r\<in>set (metric_reads pf payload). \<not> isl r"
    by (simp only: first_error_None)
  from assms n have m: "m_context_switching m = projr (py_float pf (dict_get payload ''context_switching'' (PInt 50)))"
    "m_recovery_breaks m = projr (py_float pf (dict_get payload ''recovery_breaks'' (PInt 40)))"
    "m_overload_hours m = projr (py_float pf (dict_get payload ''overload_hours'' (PInt 50)))"
    "m_deep_work m = projr (py_float pf (dict_get payload ''deep_work'' (PInt 50)))"
    by (auto simp: extract_metrics_first_error)
  from a have "\<not> isl (py_float pf (dict_get payload ''context_switching'' (PInt 50)))"
    "\<not> isl (py_float pf (dict_get payload ''recovery_breaks'' (PInt 40)))"
    "\<not> isl (py_float pf (dict_get payload ''overload_hours'' (PInt 50)))"
    "\<not> isl (py_float pf (dict_get payload ''deep_work'' (PInt 50)))"
    unfolding metric_reads_unfold by simp_all
  with m show "py_float pf (dict_get payload ''context_switching'' (PInt 50)) = Inr (m_context_switching m)"
    and "py_float pf (dict_get payload ''recovery_breaks'' (PInt 40)) = Inr (m_recovery_breaks m)"
    and "py_float pf (dict_get payload ''overload_hours'' (PInt 50)) = Inr (m_overload_hours m)"
    and "py_float pf (dict_get payload ''deep_work'' (PInt 50)) = Inr (m_deep_work m)"
    by simp_all
qed


lemma first_error_hrv_none:
  "first_error (metric_reads (\<lambda>s. None) [''hrv'' \<mapsto> PNone]) = Some (TypeError ''NoneType'')"
  by (simp add: metric_reads_unfold dict_get_def)

lemma first_error_empty: "first_error (metric_reads (\<lambda>s. None) Map.empty) = None"
  by (simp add: metric_reads_unfold dict_get_def)



subsection \<open>The index\<close>

lemma py_round_nearest: "\<bar>of_int (py_round x) - x\<bar> \<le> 1 / 2"
  unfolding py_round_def Let_def by (auto; linarith)

lemma py_round_ge:
  assumes "of_int a \<le> x" shows "a \<le> py_round x"
proof -
  have "a \<le> \<lfloor>x\<rfloor>" using assms by (simp add: le_floor_iff)
  then show ?thesis by (simp add: py_round_def Let_def)
qed

lemma py_round_le:
  assumes "x \<le> of_int b" shows "py_round x \<le> b"
proof -
  have f: "\<lfloor>x\<rfloor> \<le> b" using assms by (simp add: floor_le_iff)
  show ?thesis
  proof (cases "\<lfloor>x\<rfloor> = b")
    case True
    then have "x - of_int \<lfloor>x\<rfloor> \<le> 0" using assms by simp
    then show ?thesis using True by (simp add: py_round_def Let_def)
  next
    case False
    then have "\<lfloor>x\<rfloor> + 1 \<le> b" using f by simp
    then show ?thesis by (simp add: py_round_def Let_def)
  qed
qed

lemma py_round2_confidence:
  "0.70 \<le> py_round2 (clamp x 0.7 0.95) \<and> py_round2 (clamp x 0.7 0.95) \<le> 0.95"
proof -
  have b: "(0.7::real) \<le> clamp x 0.7 0.95" "clamp x 0.7 0.95 \<le> (0.95::real)"
    by (simp_all add: clamp_def)
  have "70 \<le> py_round (clamp x 0.7 0.95 * 100)"
    using b by (intro py_round_ge) simp
  moreover have "py_round (clamp x 0.7 0.95 * 100) \<le> 95"
    using b by (intro py_round_le) simp
  ultimately show ?thesis by (simp add: py_round2_def)
qed



subsection \<open>The response\<close>

lemma predict_locals_Inr:
  assumes "predict_locals pf payload = Inr v"
  shows "compute_mri pf payload = Inr (v_mri v)"
  using assms by (auto simp: predict_locals_def and_then_eq_Inr Let_def)

lemma predict_Inr:
  assumes "fst (predict pf mt payload g) = Inr r"
  shows "\<exists>v. predict_locals pf payload = Inr v \<and> resp_mri r = v_mri v \<and>
     resp_confidence r = py_round2 (clamp (0.7 + (of_int (v_mri v) / 100) * 0.25) 0.7 0.95)"
  using assms
  by (auto simp: predict_def Let_def split_beta split: sum.splits)

lemma predict_locals_empty:
  "predict_locals pf Map.empty =
     Inr \<lparr>v_mri = 61, v_risk = at_risk_tier, v_context_switching = 50,
          v_recovery_breaks = 40, v_overload_hours = 50, v_deep_work = 50,
          v_risk_score = 50, v_seed = 116\<rparr>"
  by (simp add: predict_locals_def compute_mri_empty dict_get_def risk_package_def clamp_def
      py_int_def Let_def)

lemma predict_empty:
  "fst (predict pf (\<lambda>s i. 1 / 2) Map.empty g) =
     Inr \<lparr>resp_mri = 61,
          resp_risk = \<lparr>r_label = label at_risk_tier, r_level = level at_risk_tier,
                       r_pill = pill at_risk_tier\<rparr>,
          resp_forecast_label = forecast_label at_risk_tier,
          resp_confidence = 0.85,
          resp_forecast = [56, 59, 62, 65, 68, 71, 74],
          resp_weekly = \<lparr>w_labels = [''Mon'', ''Tue'', ''Wed'', ''Thu'', ''Fri'', ''Sat'', ''Sun''],
                         w_mri = [58, 58, 58, 58, 58, 58, 58],
                         w_load = [54, 54, 54, 54, 54, 54, 54]\<rparr>,
          resp_coach_tip = coach_tip at_risk_tier,
          resp_recovery_now = recovery_now at_risk_tier\<rparr>"
  by (simp add: predict_def predict_locals_empty build_forecast_eq weekly_series_eq upt7
      clamp_def py_int_def py_round2_def py_round_def Let_def)





lemma extract_negative_stress:
  "extract_metrics pf [''stress'' \<mapsto> PFloat (- 200.5)] =
     Inr \<lparr>m_sleep = 5, m_switching = 5, m_stress = - 200.5, m_workload = 5, m_hrv = 5,
          m_deep_work = 50, m_deep_work_hours = 4, m_context_switching = 50,
          m_context_hours = 3, m_recovery_breaks = 40, m_recovery_hours = 2,
          m_overload_hours = 50, m_overload_hours_count = 4\<rparr>"
  by (simp add: extract_metrics_def dict_get_def)

lemma score_negative_stress:
  "mri_score \<lparr>m_sleep = 5, m_switching = 5, m_stress = - 200.5, m_workload = 5, m_hrv = 5,
          m_deep_work = 50, m_deep_work_hours = 4, m_context_switching = 50,
          m_context_hours = 3, m_recovery_breaks = 40, m_recovery_hours = 2,
          m_overload_hours = 50, m_overload_hours_count = 4\<rparr> = 10888 / 10"
  by (simp add: mri_score_def Let_def)

lemma compute_mri_negative_stress:
  "compute_mri pf [''stress'' \<mapsto> PFloat (- 200.5)] = Inr 100"
  unfolding compute_mri_def extract_negative_stress and_then_Inr score_negative_stress
  by (simp add: py_round_def clamp_def Let_def)


end
